theory Spec2Isabelle
  imports Complex_Main "HOL-Library.Product_Lexorder" "HOL-Library.Multiset" "HOL-Library.AList"
begin

section \<open>Depression risk classifier: the prediction path of streamlit\_app.py\<close>

text \<open>
  The script collects twelve answers through widgets and, when the button is pressed,
  turns them into the ten numeric features of the training data, selects the columns the
  stored logistic-regression pipeline expects, scores them and compares the probability
  with the stored threshold. Python's unbounded integers are \<^typ>\<open>int\<close>; the probability
  and the threshold are floats, of which only the order is used: they are modelled by
  their values in \<^typ>\<open>real\<close>.
\<close>

subsection \<open>Dates and the two helper functions\<close>

text \<open>
  A \<^verbatim>\<open>datetime.date\<close> as the script reads it: the attributes \<^verbatim>\<open>year\<close>,
  \<^verbatim>\<open>month\<close> and \<^verbatim>\<open>day\<close>.
\<close>

record date =
  year :: int
  month :: int
  day :: int

text \<open>
  Python's \<^verbatim>\<open>(a, b) < (c, d)\<close> on two pairs: the first position where the
  components differ decides; pairs that agree everywhere are not less.
\<close>

definition tuple_lt :: "int \<times> int \<Rightarrow> int \<times> int \<Rightarrow> bool" where
  "tuple_lt p q =
     (if fst p \<noteq> fst q then fst p < fst q
      else if snd p \<noteq> snd q then snd p < snd q
      else False)"

text \<open>\<^verbatim>\<open>int(b)\<close>, which is also the value of a \<^verbatim>\<open>bool\<close> under subtraction.\<close>

definition int_of_bool :: "bool \<Rightarrow> int" where
  "int_of_bool b = (if b then 1 else 0)"

text \<open>
  \<^verbatim>\<open>
  def calculate_age_r_lmp(dob, lmp_date):
      return lmp_date.year - dob.year - ((lmp_date.month, lmp_date.day) < (dob.month, dob.day))
  \<close>
\<close>

definition calculate_age_r_lmp :: "date \<Rightarrow> date \<Rightarrow> int" where
  "calculate_age_r_lmp dob lmp_date =
     year lmp_date - year dob
       - int_of_bool (tuple_lt (month lmp_date, day lmp_date) (month dob, day dob))"

text \<open>
  \<^verbatim>\<open>
  def calculate_p_stress(control, confid, yourway, overcome):
      return control + confid + yourway + overcome
  \<close>
\<close>

definition calculate_p_stress :: "int \<Rightarrow> int \<Rightarrow> int \<Rightarrow> int \<Rightarrow> int" where
  "calculate_p_stress control confid yourway overcome = control + confid + yourway + overcome"

text \<open>
  Calendar order of two dates, as \<^verbatim>\<open>datetime.date\<close> compares them: by year, then
  month, then day. The script never compares dates; the order is only used to state when
  a reference date precedes a date of birth.
\<close>

definition precedes :: "date \<Rightarrow> date \<Rightarrow> bool" where
  "precedes d e = ((year d, month d, day d) < (year e, month e, day e))"

subsection \<open>Exceptions and dictionaries\<close>

text \<open>
  The exceptions the prediction path can raise, all instances of Python's
  \<^verbatim>\<open>Exception\<close>: a \<^verbatim>\<open>KeyError\<close>, carrying the keys that were not found (one key
  for a dictionary subscript, the missing column labels for a column selection), and
  \<open>Exception msg\<close> for whatever else the stored pipeline raises while scoring.
\<close>

datatype exn = KeyError "string set" | Exception string

text \<open>Two statements in sequence: when the first raises, the second is not run.\<close>

definition and_then :: "exn + 'a \<Rightarrow> ('a \<Rightarrow> exn + 'b) \<Rightarrow> exn + 'b" where
  "and_then r f = (case r of Inl e \<Rightarrow> Inl e | Inr v \<Rightarrow> f v)"

text \<open>
  A \<^verbatim>\<open>dict\<close> is an association list in insertion order with distinct keys;
  \<^verbatim>\<open>d[k]\<close> returns the value stored under \<open>k\<close> and raises \<^verbatim>\<open>KeyError(k)\<close>
  when there is none.
\<close>

definition subscript :: "(string \<times> 'v) list \<Rightarrow> string \<Rightarrow> exn + 'v" where
  "subscript d k = (case map_of d k of None \<Rightarrow> Inl (KeyError {k}) | Some v \<Rightarrow> Inr v)"

subsection \<open>The label tables\<close>

text \<open>
  \<^verbatim>\<open>
  scale_labels = {1: "Never", 2: "Almost Never", 3: "Sometimes", 4: "Fairly Often", 5: "Very Often"}
  health_map = {"Excellent": 1, "Very Good": 2, "Good": 3, "Fair": 4, "Poor": 5}
  \<close>
\<close>

definition scale_labels :: "(int \<times> string) list" where
  "scale_labels =
     [(1, ''Never''), (2, ''Almost Never''), (3, ''Sometimes''), (4, ''Fairly Often''),
      (5, ''Very Often'')]"

definition health_map :: "(string \<times> int) list" where
  "health_map =
     [(''Excellent'', 1), (''Very Good'', 2), (''Good'', 3), (''Fair'', 4), (''Poor'', 5)]"

text \<open>
  \<^verbatim>\<open>scale_reverse = {v: k for k, v in scale_labels.items()}\<close>: the items are
  inserted in order, a later item replacing the value of an equal key.
\<close>

definition scale_reverse :: "(string \<times> int) list" where
  "scale_reverse = fold (\<lambda>(k, v) d. AList.update v k d) scale_labels []"

text \<open>
  The options of the select boxes: \<^verbatim>\<open>list(scale_labels.values())\<close> for the four
  stress items and \<^verbatim>\<open>list(health_map.keys())\<close> for the health rating.
\<close>

definition likert_options :: "string list" where
  "likert_options = map snd scale_labels"

definition health_options :: "string list" where
  "health_options = map fst health_map"

subsection \<open>Mapping the answers to numeric codes (lines 82 to 94)\<close>

text \<open>
  \<^verbatim>\<open>
  diffislp_val = 2 if diffislp == "Yes" else 1
  nisweat_val = 2 if nisweat == "Yes" else 1
  tense_val = 2 if tense == "Yes" else 1
  irritab_val = 2 if irritab == "Yes" else 1
  smoke_val = 2 if smoke_r == "Yes" else 1
  health_val = health_map[health]
  control_val = scale_reverse[control]
  confid_val = scale_reverse[confid]
  yourway_val = scale_reverse[yourway]
  overcome_val = scale_reverse[overcome]
  \<close>
\<close>

definition diffislp_val :: "string \<Rightarrow> int" where
  "diffislp_val diffislp = (if diffislp = ''Yes'' then 2 else 1)"

definition nisweat_val :: "string \<Rightarrow> int" where
  "nisweat_val nisweat = (if nisweat = ''Yes'' then 2 else 1)"

definition tense_val :: "string \<Rightarrow> int" where
  "tense_val tense = (if tense = ''Yes'' then 2 else 1)"

definition irritab_val :: "string \<Rightarrow> int" where
  "irritab_val irritab = (if irritab = ''Yes'' then 2 else 1)"

definition smoke_val :: "string \<Rightarrow> int" where
  "smoke_val smoke_r = (if smoke_r = ''Yes'' then 2 else 1)"

definition health_val :: "string \<Rightarrow> exn + int" where
  "health_val health = subscript health_map health"

definition control_val :: "string \<Rightarrow> exn + int" where
  "control_val control = subscript scale_reverse control"

definition confid_val :: "string \<Rightarrow> exn + int" where
  "confid_val confid = subscript scale_reverse confid"

definition yourway_val :: "string \<Rightarrow> exn + int" where
  "yourway_val yourway = subscript scale_reverse yourway"

definition overcome_val :: "string \<Rightarrow> exn + int" where
  "overcome_val overcome = subscript scale_reverse overcome"

subsection \<open>The data frame and the selection of the model's columns (lines 101 to 115)\<close>

text \<open>
  A one-row \<^verbatim>\<open>DataFrame\<close>: its columns in order, each a label and the value of the
  row. \<^verbatim>\<open>pd.DataFrame([{...}])\<close> takes the columns from the dictionary's keys in
  the order they are written.
\<close>

type_synonym frame = "(string \<times> int) list"

definition feature_dict ::
  "int \<Rightarrow> int \<Rightarrow> int \<Rightarrow> int \<Rightarrow> int \<Rightarrow> int \<Rightarrow> int \<Rightarrow> int \<Rightarrow> int \<Rightarrow> int \<Rightarrow> frame" where
  "feature_dict tense_v irritab_v control_v p_stress yourway_v nisweat_v age_r_lmp smoke_v
       diffislp_v health_v =
     [(''TENSE'', tense_v), (''IRRITAB'', irritab_v), (''CONTROL'', control_v),
      (''P_STRESS'', p_stress), (''YOURWAY'', yourway_v), (''NISWEAT'', nisweat_v),
      (''AGE_R_LMP'', age_r_lmp), (''SMOKE_R'', smoke_v), (''DIFFISLP'', diffislp_v),
      (''HEALTH'', health_v)]"

text \<open>The ten keys of that dictionary, which are the labels of the frame's columns.\<close>

definition feature_names :: "string list" where
  "feature_names =
     [''TENSE'', ''IRRITAB'', ''CONTROL'', ''P_STRESS'', ''YOURWAY'', ''NISWEAT'',
      ''AGE_R_LMP'', ''SMOKE_R'', ''DIFFISLP'', ''HEALTH'']"

text \<open>
  \<^verbatim>\<open>df[labels]\<close> with a list of labels: the columns of \<open>df\<close> carrying each label,
  in the order of the list (a label listed twice is selected twice); a
  \<^verbatim>\<open>KeyError\<close> naming the labels that are no column of \<open>df\<close> when there are any.
\<close>

definition getitem_columns :: "frame \<Rightarrow> string list \<Rightarrow> exn + frame" where
  "getitem_columns df labels =
     (case filter (\<lambda>l. map_of df l = None) labels of
        [] \<Rightarrow> Inr (concat (map (\<lambda>l. filter (\<lambda>c. fst c = l) df) labels))
      | missing \<Rightarrow> Inl (KeyError (set missing)))"

subsection \<open>The stored artifact and the decision (lines 11 to 14, 118 and 119)\<close>

text \<open>
  What \<^verbatim>\<open>joblib.load("log_reg_model.pkl")\<close> returns, under its three keys. The
  pipeline is opaque: \<open>model\<close> is \<^verbatim>\<open>predict_proba(df)[:, 1][0]\<close>, the probability of
  the positive class for the row of the frame, or the exception raised on the way.
\<close>

record model_info =
  model :: "frame \<Rightarrow> exn + real"
  threshold :: real
  features :: "string list"

text \<open>\<^verbatim>\<open>pred = int(prob >= threshold)\<close>\<close>

definition pred :: "real \<Rightarrow> real \<Rightarrow> int" where
  "pred prob thr = int_of_bool (prob \<ge> thr)"

subsection \<open>The prediction path (the body of the try block, lines 82 to 119)\<close>

text \<open>The values of the twelve widgets when the button is pressed.\<close>

record raw_answers =
  dob :: date
  lmp_date :: date
  diffislp :: string
  nisweat :: string
  tense :: string
  irritab :: string
  control :: string
  confid :: string
  yourway :: string
  overcome :: string
  smoke_r :: string
  health :: string

text \<open>
  Lines 82 to 112: the frame of all ten features, or the \<^verbatim>\<open>KeyError\<close> of the first
  subscript that fails (health first, then the four stress items in the order of the
  source).
\<close>

definition input_data :: "raw_answers \<Rightarrow> exn + frame" where
  "input_data r =
     (let diffislp_v = diffislp_val (diffislp r);
          nisweat_v = nisweat_val (nisweat r);
          tense_v = tense_val (tense r);
          irritab_v = irritab_val (irritab r);
          smoke_v = smoke_val (smoke_r r)
      in and_then (health_val (health r)) (\<lambda>health_v.
         and_then (control_val (control r)) (\<lambda>control_v.
         and_then (confid_val (confid r)) (\<lambda>confid_v.
         and_then (yourway_val (yourway r)) (\<lambda>yourway_v.
         and_then (overcome_val (overcome r)) (\<lambda>overcome_v.
           let p_stress = calculate_p_stress control_v confid_v yourway_v overcome_v;
               age_r_lmp = calculate_age_r_lmp (dob r) (lmp_date r)
           in Inr (feature_dict tense_v irritab_v control_v p_stress yourway_v nisweat_v
                     age_r_lmp smoke_v diffislp_v health_v)))))))"

text \<open>Lines 115 to 119: column selection, scoring and the comparison with the threshold.\<close>

record prediction =
  prob :: real
  label :: int

definition predict :: "model_info \<Rightarrow> raw_answers \<Rightarrow> exn + prediction" where
  "predict info r =
     and_then (input_data r) (\<lambda>df.
     and_then (getitem_columns df (features info)) (\<lambda>sel.
     and_then (model info sel) (\<lambda>p.
       Inr \<lparr>prob = p, label = pred p (threshold info)\<rparr>)))"

subsection \<open>The button handler (lines 79 to 147)\<close>

text \<open>
  What the handler puts on the page. The formatted texts and the figure are kept as the
  values they are made from: \<open>Plotly_gauge p t\<close> is the figure drawn from the probability
  \<open>p\<close> and the threshold \<open>t\<close>. The figure's own numbers, the float products
  \<^verbatim>\<open>prob * 100\<close> and \<^verbatim>\<open>threshold * 100\<close>, are rounded by float arithmetic
  and are not computed here.
\<close>

datatype element =
    Subheader string
  | Write_probability real
  | Error_at_risk
  | Success_not_at_risk
  | Plotly_gauge real real
  | Error_processing_input exn

text \<open>
  Lines 122 to 144: the heading, the probability, the verdict chosen by
  \<^verbatim>\<open>pred == 1\<close>, and the gauge made from \<^verbatim>\<open>prob\<close> and
  \<^verbatim>\<open>threshold\<close>.
\<close>

definition show_results :: "prediction \<Rightarrow> real \<Rightarrow> element list" where
  "show_results res thr =
     [Subheader ''Results'',
      Write_probability (prob res),
      (if label res = 1 then Error_at_risk else Success_not_at_risk),
      Plotly_gauge (prob res) thr]"

text \<open>
  \<^verbatim>\<open>try: ... except Exception as e: ...\<close>: the handler runs for every exception of
  type \<^typ>\<open>exn\<close>, all of them instances of \<^verbatim>\<open>Exception\<close>. The result is again one
  that may raise, since a handler may.
\<close>

definition try_except :: "exn + 'a \<Rightarrow> (exn \<Rightarrow> exn + 'a) \<Rightarrow> exn + 'a" where
  "try_except body handler = (case body of Inr v \<Rightarrow> Inr v | Inl e \<Rightarrow> handler e)"

text \<open>
  The state of a run of the script: the loaded artifact and what has been displayed.
\<close>

record session =
  artifact :: model_info
  page :: "element list"

text \<open>
  The body of \<^verbatim>\<open>if st.button(...)\<close>. \<open>Inl e\<close> would be an exception leaving the
  script.
\<close>

definition button_pressed :: "session \<Rightarrow> raw_answers \<Rightarrow> exn + session" where
  "button_pressed s r =
     try_except
       (and_then (predict (artifact s) r) (\<lambda>res.
          Inr (s\<lparr>page := page s @ show_results res (threshold (artifact s))\<rparr>)))
       (\<lambda>e. Inr (s\<lparr>page := page s @ [Error_processing_input e]\<rparr>))"

subsection \<open>Inputs for worked examples\<close>

text \<open>
  The answers of the specification's end-to-end scenario (born 1970-01-01, last period
  2020-01-01), and a stand-in artifact for it: three expected columns, a threshold of one
  half, and a scoring function that rejects a frame of any other width.
\<close>

definition scenario_answers :: raw_answers where
  "scenario_answers =
     \<lparr>dob = \<lparr>year = 1970, month = 1, day = 1\<rparr>,
      lmp_date = \<lparr>year = 2020, month = 1, day = 1\<rparr>,
      diffislp = ''Yes'', nisweat = ''No'', tense = ''Yes'', irritab = ''No'',
      control = ''Sometimes'', confid = ''Fairly Often'', yourway = ''Never'',
      overcome = ''Very Often'', smoke_r = ''No'', health = ''Good''\<rparr>"

definition scenario_info :: model_info where
  "scenario_info =
     \<lparr>model = (\<lambda>df. if length df = 3 then Inr (real_of_int (sum_list (map snd df)) / 100)
                     else Inl (Exception ''X has a wrong number of features'')),
      threshold = 0.5,
      features = [''P_STRESS'', ''AGE_R_LMP'', ''HEALTH'']\<rparr>"

section \<open>Properties\<close>

subsection \<open>The helper functions: basic facts\<close>

lemma tuple_lt_lex: "tuple_lt (a, b) (c, d) = ((a, b) < (c, d))"
  by (auto simp: tuple_lt_def less_prod_def)

lemma precedes_iff:
  "precedes d e =
     (year d < year e \<or> year d = year e \<and> (month d, day d) < (month e, day e))"
  by (auto simp: precedes_def less_prod_def less_eq_prod_def)

lemma and_then_Inl [simp]: "and_then (Inl e) f = Inl e"
  by (simp add: and_then_def)

lemma and_then_Inr [simp]: "and_then (Inr v) f = f v"
  by (simp add: and_then_def)

lemma and_then_eq_Inl:
  "and_then m f = Inl e \<longleftrightarrow> m = Inl e \<or> (\<exists>v. m = Inr v \<and> f v = Inl e)"
  by (cases m) simp_all

subsection \<open>The label tables, evaluated\<close>

lemma scale_reverse_eq:
  "scale_reverse =
     [(''Never'', 1), (''Almost Never'', 2), (''Sometimes'', 3), (''Fairly Often'', 4),
      (''Very Often'', 5)]"
  by (simp add: scale_reverse_def scale_labels_def)

lemma subscript_scale_reverse:
  "subscript scale_reverse l =
     (if l = ''Never'' then Inr 1 else if l = ''Almost Never'' then Inr 2
      else if l = ''Sometimes'' then Inr 3 else if l = ''Fairly Often'' then Inr 4
      else if l = ''Very Often'' then Inr 5 else Inl (KeyError {l}))"
  by (simp add: subscript_def scale_reverse_eq)

lemma health_val_cases:
  "health_val h =
     (if h = ''Excellent'' then Inr 1 else if h = ''Very Good'' then Inr 2
      else if h = ''Good'' then Inr 3 else if h = ''Fair'' then Inr 4
      else if h = ''Poor'' then Inr 5 else Inl (KeyError {h}))"
  by (simp add: health_val_def subscript_def health_map_def)

lemma likert_options_eq:
  "likert_options = [''Never'', ''Almost Never'', ''Sometimes'', ''Fairly Often'', ''Very Often'']"
  by (simp add: likert_options_def scale_labels_def)

lemma health_options_eq:
  "health_options = [''Excellent'', ''Very Good'', ''Good'', ''Fair'', ''Poor'']"
  by (simp add: health_options_def health_map_def)

lemma likert_Inl: "l \<notin> set likert_options \<Longrightarrow> subscript scale_reverse l = Inl (KeyError {l})"
  by (simp add: likert_options_eq subscript_scale_reverse)

lemma likert_Inr: "l \<in> set likert_options \<Longrightarrow> \<exists>v. subscript scale_reverse l = Inr v"
  by (auto simp: likert_options_eq subscript_scale_reverse)

lemma health_Inl: "h \<notin> set health_options \<Longrightarrow> health_val h = Inl (KeyError {h})"
  by (simp add: health_options_eq health_val_cases)

lemma health_Inr: "h \<in> set health_options \<Longrightarrow> \<exists>v. health_val h = Inr v"
  by (auto simp: health_options_eq health_val_cases)

lemmas likert_val_defs = control_val_def confid_val_def yourway_val_def overcome_val_def

lemmas binary_val_defs =
  diffislp_val_def nisweat_val_def tense_val_def irritab_val_def smoke_val_def

lemmas eval_input_data =
  input_data_def binary_val_defs likert_val_defs subscript_scale_reverse health_val_cases
  calculate_p_stress_def calculate_age_r_lmp_def int_of_bool_def tuple_lt_def

subsection \<open>The scenario, evaluated\<close>

lemma scenario_input_data:
  "input_data scenario_answers = Inr (feature_dict 2 1 3 13 1 1 50 1 2 3)"
  by (simp add: scenario_answers_def eval_input_data)

lemma scenario_sel:
  "getitem_columns (feature_dict 2 1 3 13 1 1 50 1 2 3) (features scenario_info)
     = Inr [(''P_STRESS'', 13), (''AGE_R_LMP'', 50), (''HEALTH'', 3)]"
  by (simp add: getitem_columns_def feature_dict_def scenario_info_def)

lemma scenario_model:
  "model scenario_info [(''P_STRESS'', 13), (''AGE_R_LMP'', 50), (''HEALTH'', 3)] = Inr 0.66"
  by (simp add: scenario_info_def)

lemma scenario_threshold: "threshold scenario_info = 0.5"
  by (simp add: scenario_info_def)

lemma scenario_predict:
  "predict scenario_info scenario_answers = Inr \<lparr>prob = 0.66, label = 1\<rparr>"
  by (simp add: predict_def scenario_input_data scenario_sel scenario_model scenario_threshold
      pred_def int_of_bool_def)

subsection \<open>Which answers the frame of features depends on\<close>

lemma input_data_binary_irrelevant:
  "(input_data (r\<lparr>diffislp := a, nisweat := b, tense := c, irritab := d, smoke_r := e\<rparr>) = Inl x)
     = (input_data r = Inl x)"
  by (simp add: input_data_def Let_def and_then_eq_Inl)

lemma input_data_dates:
  "input_data (r\<lparr>dob := b, lmp_date := l\<rparr>) =
     and_then (input_data r)
       (\<lambda>df. Inr (AList.update ''AGE_R_LMP'' (calculate_age_r_lmp b l) df))"
  by (simp add: input_data_def Let_def and_then_def feature_dict_def split: sum.splits)

lemma input_data_unknown_label:
  assumes "health r \<notin> set health_options \<or> control r \<notin> set likert_options
      \<or> confid r \<notin> set likert_options \<or> yourway r \<notin> set likert_options
      \<or> overcome r \<notin> set likert_options"
  shows "\<exists>k. input_data r = Inl (KeyError {k})"
proof (cases "health r \<in> set health_options")
  case False
  then show ?thesis
    by (simp add: input_data_def Let_def health_Inl)
next
  case h: True
  then obtain hv where hv: "health_val (health r) = Inr hv"
    using health_Inr by blast
  show ?thesis
  proof (cases "control r \<in> set likert_options")
    case False
    with hv show ?thesis
      by (simp add: input_data_def Let_def control_val_def likert_Inl)
  next
    case c: True
    then obtain cv where cv: "control_val (control r) = Inr cv"
      using likert_Inr control_val_def by metis
    show ?thesis
    proof (cases "confid r \<in> set likert_options")
      case False
      with hv cv show ?thesis
        by (simp add: input_data_def Let_def confid_val_def likert_Inl)
    next
      case f: True
      then obtain fv where fv: "confid_val (confid r) = Inr fv"
        using likert_Inr confid_val_def by metis
      show ?thesis
      proof (cases "yourway r \<in> set likert_options")
        case False
        with hv cv fv show ?thesis
          by (simp add: input_data_def Let_def yourway_val_def likert_Inl)
      next
        case y: True
        then obtain yv where yv: "yourway_val (yourway r) = Inr yv"
          using likert_Inr yourway_val_def by metis
        from assms h c f y have "overcome r \<notin> set likert_options"
          by blast
        with hv cv fv yv show ?thesis
          by (simp add: input_data_def Let_def overcome_val_def likert_Inl)
      qed
    qed
  qed
qed

subsection \<open>Selecting columns of a frame\<close>

lemma filter_key_distinct:
  "distinct (map fst df) \<Longrightarrow> map_of df l = Some v \<Longrightarrow> filter (\<lambda>c. fst c = l) df = [(l, v)]"
proof (induction df)
  case Nil
  then show ?case by simp
next
  case (Cons c df)
  show ?case
  proof (cases "fst c = l")
    case True
    with Cons.prems have "l \<notin> fst ` set df"
      by simp
    then have "filter (\<lambda>c. fst c = l) df = []"
      by (auto simp: filter_empty_conv image_iff)
    with True Cons.prems show ?thesis by (cases c) simp
  next
    case False
    with Cons show ?thesis by (cases c) simp
  qed
qed

lemma getitem_columns_present:
  assumes "distinct (map fst df)" and "set labels \<subseteq> fst ` set df"
  shows "getitem_columns df labels = Inr (map (\<lambda>l. (l, the (map_of df l))) labels)"
proof -
  have none: "filter (\<lambda>l. map_of df l = None) labels = []"
    using assms(2) by (auto simp: filter_empty_conv map_of_eq_None_iff)
  have "concat (map (\<lambda>l. filter (\<lambda>c. fst c = l) df) labels)
          = map (\<lambda>l. (l, the (map_of df l))) labels"
    using assms(2)
  proof (induction labels)
    case Nil
    then show ?case by simp
  next
    case (Cons l labels)
    then have "map_of df l \<noteq> None"
      by (simp add: map_of_eq_None_iff)
    then obtain v where "map_of df l = Some v"
      by auto
    with Cons assms(1) show ?case
      by (simp add: filter_key_distinct)
  qed
  with none show ?thesis
    by (simp add: getitem_columns_def)
qed

lemma getitem_columns_missing:
  assumes "\<not> set labels \<subseteq> fst ` set df"
  shows "getitem_columns df labels = Inl (KeyError (set labels - fst ` set df))"
proof -
  have s: "set (filter (\<lambda>l. map_of df l = None) labels) = set labels - fst ` set df"
    by (auto simp: map_of_eq_None_iff)
  with assms have "filter (\<lambda>l. map_of df l = None) labels \<noteq> []"
    by (metis Diff_eq_empty_iff set_empty)
  then obtain m ms where "filter (\<lambda>l. map_of df l = None) labels = m # ms"
    by (cases "filter (\<lambda>l. map_of df l = None) labels") auto
  with s show ?thesis
    by (simp add: getitem_columns_def)
qed

lemma feature_dict_keys: "map fst (feature_dict t i c p y n a s d h) = feature_names"
  by (simp add: feature_dict_def feature_names_def)

lemma feature_dict_distinct: "distinct (map fst (feature_dict t i c p y n a s d h))"
  by (simp add: feature_dict_keys feature_names_def)

subsection \<open>The button handler, in one equation\<close>

lemma button_pressed_eq:
  "button_pressed s r =
     Inr (s\<lparr>page := page s @
       (case predict (artifact s) r of
          Inl e \<Rightarrow> [Error_processing_input e]
        | Inr res \<Rightarrow> show_results res (threshold (artifact s)))\<rparr>)"
  by (cases "predict (artifact s) r") (simp_all add: button_pressed_def try_except_def)

subsection \<open>Age at the last menstrual period\<close>

text \<open>
  C1. For every date of birth and every reference date that does not precede it,
  \<open>calculate_age_r_lmp\<close> returns the difference of the years, less one exactly when the
  pair (month, day) of the reference date is below that of the date of birth in the
  lexicographic order of pairs. For a birth on 1980-05-15 the age is 39 on 2020-05-14,
  40 on 2020-05-15 and 40 on 2020-05-16.
\<close>

theorem age_at_reference:
  "(\<not> precedes lmp dob' \<longrightarrow>
      calculate_age_r_lmp dob' lmp =
        year lmp - year dob'
          - (if (month lmp, day lmp) < (month dob', day dob') then 1 else 0))
   \<and> calculate_age_r_lmp \<lparr>year = 1980, month = 5, day = 15\<rparr>
         \<lparr>year = 2020, month = 5, day = 14\<rparr> = 39
   \<and> calculate_age_r_lmp \<lparr>year = 1980, month = 5, day = 15\<rparr>
         \<lparr>year = 2020, month = 5, day = 15\<rparr> = 40
   \<and> calculate_age_r_lmp \<lparr>year = 1980, month = 5, day = 15\<rparr>
         \<lparr>year = 2020, month = 5, day = 16\<rparr> = 40"
  by (simp add: calculate_age_r_lmp_def int_of_bool_def tuple_lt_lex)

theorem age_at_reference_witness:
  "\<not> precedes \<lparr>year = 2020, month = 5, day = 14\<rparr> \<lparr>year = 1980, month = 5, day = 15\<rparr>
   \<and> calculate_age_r_lmp \<lparr>year = 1980, month = 5, day = 15\<rparr>
         \<lparr>year = 2020, month = 5, day = 14\<rparr> = 2020 - 1980 - 1"
  using age_at_reference
    [of "\<lparr>year = 2020, month = 5, day = 14\<rparr>" "\<lparr>year = 1980, month = 5, day = 15\<rparr>"]
  by (simp add: precedes_iff)

text \<open>
  C8. When the date of the last menstrual period strictly precedes the date of birth,
  \<open>calculate_age_r_lmp\<close> returns a negative number, and nothing rejects it: with such
  dates the frame of features is built exactly when it is built with any other dates, and
  its column AGE\_R\_LMP holds the negative age.
\<close>

theorem negative_age_silent:
  assumes "precedes l b"
  shows "calculate_age_r_lmp b l < 0
    \<and> input_data (r\<lparr>dob := b, lmp_date := l\<rparr>) =
        (case input_data r of
           Inl e \<Rightarrow> Inl e
         | Inr df \<Rightarrow> Inr (AList.update ''AGE_R_LMP'' (calculate_age_r_lmp b l) df))"
proof
  from assms show "calculate_age_r_lmp b l < 0"
    by (auto simp: precedes_iff calculate_age_r_lmp_def int_of_bool_def tuple_lt_lex)
  show "input_data (r\<lparr>dob := b, lmp_date := l\<rparr>) =
        (case input_data r of
           Inl e \<Rightarrow> Inl e
         | Inr df \<Rightarrow> Inr (AList.update ''AGE_R_LMP'' (calculate_age_r_lmp b l) df))"
    by (simp add: input_data_dates and_then_def)
qed

theorem negative_age_silent_witness:
  "precedes \<lparr>year = 2020, month = 5, day = 14\<rparr> \<lparr>year = 2020, month = 5, day = 15\<rparr>
   \<and> calculate_age_r_lmp \<lparr>year = 2020, month = 5, day = 15\<rparr>
         \<lparr>year = 2020, month = 5, day = 14\<rparr> = - 1
   \<and> input_data (scenario_answers\<lparr>dob := \<lparr>year = 2020, month = 5, day = 15\<rparr>,
         lmp_date := \<lparr>year = 2020, month = 5, day = 14\<rparr>\<rparr>)
       = Inr (feature_dict 2 1 3 13 1 1 (- 1) 1 2 3)"
proof -
  have p: "precedes \<lparr>year = 2020, month = 5, day = 14\<rparr> \<lparr>year = 2020, month = 5, day = 15\<rparr>"
    by (simp add: precedes_iff)
  have a: "calculate_age_r_lmp \<lparr>year = 2020, month = 5, day = 15\<rparr>
      \<lparr>year = 2020, month = 5, day = 14\<rparr> = - 1"
    by (simp add: calculate_age_r_lmp_def int_of_bool_def tuple_lt_def)
  from negative_age_silent [OF p, of scenario_answers] p a show ?thesis
    by (simp add: scenario_input_data feature_dict_def)
qed

subsection \<open>The perceived stress score\<close>

text \<open>
  C5. For four inputs each between 1 and 5, \<open>calculate_p_stress\<close> returns their plain sum,
  which lies between 4 and 20; 1+1+1+1 gives 4, 5+5+5+5 gives 20 and 2+3+4+5 gives 14.
\<close>

theorem p_stress_sum:
  "(a \<in> {1..5} \<and> b \<in> {1..5} \<and> c \<in> {1..5} \<and> d \<in> {1..5} \<longrightarrow>
      calculate_p_stress a b c d = a + b + c + d
      \<and> calculate_p_stress a b c d \<in> {4..20})
   \<and> calculate_p_stress 1 1 1 1 = 4
   \<and> calculate_p_stress 5 5 5 5 = 20
   \<and> calculate_p_stress 2 3 4 5 = 14"
  by (simp add: calculate_p_stress_def)

theorem p_stress_sum_witness:
  "(2::int) \<in> {1..5} \<and> (3::int) \<in> {1..5} \<and> (4::int) \<in> {1..5} \<and> (5::int) \<in> {1..5}
   \<and> calculate_p_stress 2 3 4 5 = 2 + 3 + 4 + 5
   \<and> calculate_p_stress 2 3 4 5 \<in> {4..20}"
  using p_stress_sum [of 2 3 4 5] by simp

text \<open>
  C10. \<open>calculate_p_stress\<close> gives the same score for any reordering of its four
  arguments: whenever the arguments of one call are, as a multiset, the arguments of
  another, the two results are equal.
\<close>

theorem p_stress_reordering:
  assumes "mset [a', b', c', d'] = mset [a, b, c, d]"
  shows "calculate_p_stress a' b' c' d' = calculate_p_stress a b c d"
proof -
  from assms have "sum_mset (mset [a', b', c', d']) = sum_mset (mset [a, b, c, d])"
    by (rule arg_cong)
  then show ?thesis
    by (simp add: calculate_p_stress_def)
qed

theorem p_stress_reordering_witness:
  "mset [5, 3, 2, 4] = mset [2, 3, 4, 5 :: int]
   \<and> calculate_p_stress 5 3 2 4 = calculate_p_stress 2 3 4 5"
proof -
  have m: "mset [5, 3, 2, 4] = mset [2, 3, 4, 5 :: int]" by simp
  show ?thesis using m p_stress_reordering [OF m] by simp
qed

subsection \<open>The yes/no answers\<close>

text \<open>
  C3, as the code has it. Each of the five yes/no answers is mapped to 2 when it is
  "Yes" and to 1 otherwise: "No" gives 1, and so does every other string. No value of
  these five answers makes the path fail: whether the frame of features is built, and
  with which exception it is not, is the same whatever the five answers are.
\<close>

theorem binary_codes:
  "diffislp_val ''Yes'' = 2 \<and> diffislp_val ''No'' = 1
   \<and> nisweat_val ''Yes'' = 2 \<and> nisweat_val ''No'' = 1
   \<and> tense_val ''Yes'' = 2 \<and> tense_val ''No'' = 1
   \<and> irritab_val ''Yes'' = 2 \<and> irritab_val ''No'' = 1
   \<and> smoke_val ''Yes'' = 2 \<and> smoke_val ''No'' = 1
   \<and> (s \<noteq> ''Yes'' \<longrightarrow>
        diffislp_val s = 1 \<and> nisweat_val s = 1 \<and> tense_val s = 1 \<and> irritab_val s = 1
        \<and> smoke_val s = 1)
   \<and> ((input_data (r\<lparr>diffislp := a, nisweat := b, tense := c, irritab := d, smoke_r := e\<rparr>)
          = Inl x)
        = (input_data r = Inl x))"
  by (simp add: binary_val_defs input_data_binary_irrelevant)

theorem binary_codes_witness:
  "''maybe'' \<noteq> ''Yes'' \<and> diffislp_val ''maybe'' = 1 \<and> nisweat_val ''maybe'' = 1
   \<and> tense_val ''maybe'' = 1 \<and> irritab_val ''maybe'' = 1 \<and> smoke_val ''maybe'' = 1"
  using binary_codes [of "''maybe''"] by simp

text \<open>
  C3, as the specification states it, fails: with "maybe" as the answer on sleep
  difficulty and the scenario's other answers, no exception is raised; the code is 1 and
  the frame is built with DIFFISLP = 1.
\<close>

theorem binary_maybe_counterexample:
  "diffislp_val ''maybe'' = 1 \<and>
   input_data (scenario_answers\<lparr>diffislp := ''maybe''\<rparr>)
     = Inr (feature_dict 2 1 3 13 1 1 50 1 1 3)"
  by (simp add: scenario_answers_def eval_input_data)

subsection \<open>The stress items and the health rating\<close>

text \<open>
  C4. The five labels of the stress scale, "Never", "Almost Never", "Sometimes",
  "Fairly Often" and "Very Often", are mapped to 1, 2, 3, 4 and 5 for each of the four
  stress items, and the five health labels "Excellent", "Very Good", "Good", "Fair" and
  "Poor" to 1, 2, 3, 4 and 5. A string outside the vocabulary makes the subscript fail
  with a \<open>KeyError\<close> on that string (the failure the specification calls InvalidInput),
  and answers with such a string in any of the five fields make the whole path fail with
  a \<open>KeyError\<close>.
\<close>

theorem label_codes:
  "likert_options = [''Never'', ''Almost Never'', ''Sometimes'', ''Fairly Often'', ''Very Often'']
   \<and> map control_val likert_options = [Inr 1, Inr 2, Inr 3, Inr 4, Inr 5]
   \<and> map confid_val likert_options = [Inr 1, Inr 2, Inr 3, Inr 4, Inr 5]
   \<and> map yourway_val likert_options = [Inr 1, Inr 2, Inr 3, Inr 4, Inr 5]
   \<and> map overcome_val likert_options = [Inr 1, Inr 2, Inr 3, Inr 4, Inr 5]
   \<and> health_options = [''Excellent'', ''Very Good'', ''Good'', ''Fair'', ''Poor'']
   \<and> map health_val health_options = [Inr 1, Inr 2, Inr 3, Inr 4, Inr 5]
   \<and> (l \<notin> set likert_options \<longrightarrow>
        control_val l = Inl (KeyError {l}) \<and> confid_val l = Inl (KeyError {l})
        \<and> yourway_val l = Inl (KeyError {l}) \<and> overcome_val l = Inl (KeyError {l}))
   \<and> (h \<notin> set health_options \<longrightarrow> health_val h = Inl (KeyError {h}))
   \<and> (health r \<notin> set health_options \<or> control r \<notin> set likert_options
        \<or> confid r \<notin> set likert_options \<or> yourway r \<notin> set likert_options
        \<or> overcome r \<notin> set likert_options
       \<longrightarrow> (\<exists>k. input_data r = Inl (KeyError {k}) \<and> predict info r = Inl (KeyError {k})))"
proof (intro conjI impI)
  assume "health r \<notin> set health_options \<or> control r \<notin> set likert_options
        \<or> confid r \<notin> set likert_options \<or> yourway r \<notin> set likert_options
        \<or> overcome r \<notin> set likert_options"
  then have "\<exists>k. input_data r = Inl (KeyError {k})"
    by (rule input_data_unknown_label)
  then show "\<exists>k. input_data r = Inl (KeyError {k}) \<and> predict info r = Inl (KeyError {k})"
    by (auto simp: predict_def)
next
  show "map health_val health_options = [Inr 1, Inr 2, Inr 3, Inr 4, Inr 5]"
    by (simp add: health_options_eq health_val_cases)
qed (simp_all add: likert_options_eq health_options_eq likert_val_defs likert_Inl health_Inl
    subscript_scale_reverse)

theorem label_codes_witness:
  "''maybe'' \<notin> set likert_options
   \<and> control_val ''maybe'' = Inl (KeyError {''maybe''})
   \<and> confid_val ''maybe'' = Inl (KeyError {''maybe''})
   \<and> yourway_val ''maybe'' = Inl (KeyError {''maybe''})
   \<and> overcome_val ''maybe'' = Inl (KeyError {''maybe''})
   \<and> ''Average'' \<notin> set health_options
   \<and> health_val ''Average'' = Inl (KeyError {''Average''})
   \<and> health (scenario_answers\<lparr>health := ''Average''\<rparr>) \<notin> set health_options
   \<and> (\<exists>k. input_data (scenario_answers\<lparr>health := ''Average''\<rparr>) = Inl (KeyError {k})
          \<and> predict scenario_info (scenario_answers\<lparr>health := ''Average''\<rparr>)
              = Inl (KeyError {k}))"
  using label_codes [of "''maybe''" "''Average''" "scenario_answers\<lparr>health := ''Average''\<rparr>"
      scenario_info]
  by (simp add: likert_options_eq health_options_eq)

subsection \<open>Assembling the columns the model expects\<close>

text \<open>
  C6. Take the frame of all ten features, with any values, and any list of expected
  labels. If every label of the list is one of the ten keys, the selection succeeds: the
  selected columns carry exactly the labels of the list, in the order of the list, each
  with the value the frame has under that label; hence rearranging the list by any list of
  positions rearranges the output by the same positions. If some label of the list is not
  one of the ten keys, the selection fails with a \<open>KeyError\<close> naming the absent labels
  (the failure the specification calls MissingFeature).
\<close>

theorem assemble_in_order:
  fixes t i c p y n a s d h :: int
  defines "df \<equiv> feature_dict t i c p y n a s d h"
  shows
  "(set labels \<subseteq> set feature_names \<longrightarrow>
      (\<exists>out. getitem_columns df labels = Inr out
         \<and> map fst out = labels
         \<and> map (\<lambda>c. Some (snd c)) out = map (map_of df) labels
         \<and> ((\<forall>j \<in> set js. j < length labels) \<longrightarrow>
              getitem_columns df (map (\<lambda>j. labels ! j) js) = Inr (map (\<lambda>j. out ! j) js))))
   \<and> (\<not> set labels \<subseteq> set feature_names \<longrightarrow>
        getitem_columns df labels = Inl (KeyError (set labels - set feature_names)))"
proof (intro conjI impI)
  have keys: "fst ` set df = set feature_names"
    unfolding df_def using feature_dict_keys [of t i c p y n a s d h]
    by (metis set_map)
  have dist: "distinct (map fst df)"
    unfolding df_def by (rule feature_dict_distinct)
  {
    assume sub: "set labels \<subseteq> set feature_names"
    let ?g = "\<lambda>l. (l, the (map_of df l))"
    have out: "getitem_columns df labels = Inr (map ?g labels)"
      using dist sub keys by (simp add: getitem_columns_present)
    have vals: "map (\<lambda>c. Some (snd c)) (map ?g labels) = map (map_of df) labels"
    proof -
      have "Some (the (map_of df l)) = map_of df l" if "l \<in> set labels" for l
      proof -
        from that sub keys have "l \<in> fst ` set df" by auto
        then have "map_of df l \<noteq> None" by (simp add: map_of_eq_None_iff)
        then show ?thesis by auto
      qed
      then show ?thesis by simp
    qed
    have perm: "getitem_columns df (map (\<lambda>j. labels ! j) js)
        = Inr (map (\<lambda>j. map ?g labels ! j) js)"
      if "\<forall>j \<in> set js. j < length labels"
    proof -
      from that sub have "set (map (\<lambda>j. labels ! j) js) \<subseteq> set feature_names"
        by (auto dest: nth_mem)
      with dist keys have "getitem_columns df (map (\<lambda>j. labels ! j) js)
          = Inr (map ?g (map (\<lambda>j. labels ! j) js))"
        by (simp add: getitem_columns_present)
      with that show ?thesis by simp
    qed
    from out vals perm
    show "\<exists>out. getitem_columns df labels = Inr out
         \<and> map fst out = labels
         \<and> map (\<lambda>c. Some (snd c)) out = map (map_of df) labels
         \<and> ((\<forall>j \<in> set js. j < length labels) \<longrightarrow>
              getitem_columns df (map (\<lambda>j. labels ! j) js) = Inr (map (\<lambda>j. out ! j) js))"
      by (intro exI [of _ "map ?g labels"]) (simp add: comp_def)
  }
  {
    assume "\<not> set labels \<subseteq> set feature_names"
    with keys show "getitem_columns df labels = Inl (KeyError (set labels - set feature_names))"
      by (simp add: getitem_columns_missing)
  }
qed

theorem assemble_in_order_witness:
  "set [''HEALTH'', ''TENSE''] \<subseteq> set feature_names
   \<and> getitem_columns (feature_dict 1 2 3 4 5 6 7 8 9 10) [''HEALTH'', ''TENSE'']
       = Inr [(''HEALTH'', 10), (''TENSE'', 1)]
   \<and> getitem_columns (feature_dict 1 2 3 4 5 6 7 8 9 10) [''TENSE'', ''HEALTH'']
       = Inr [(''TENSE'', 1), (''HEALTH'', 10)]
   \<and> \<not> set [''TENSE'', ''UNKNOWN_FEATURE''] \<subseteq> set feature_names
   \<and> getitem_columns (feature_dict 1 2 3 4 5 6 7 8 9 10) [''TENSE'', ''UNKNOWN_FEATURE'']
       = Inl (KeyError {''UNKNOWN_FEATURE''})"
proof -
  have sub: "set [''HEALTH'', ''TENSE''] \<subseteq> set feature_names"
    by (simp add: feature_names_def)
  have js: "\<forall>j \<in> set [1, 0 :: nat]. j < length [''HEALTH'', ''TENSE'']"
    by simp
  have nsub: "\<not> set [''TENSE'', ''UNKNOWN_FEATURE''] \<subseteq> set feature_names"
    by (simp add: feature_names_def)
  have miss: "set [''TENSE'', ''UNKNOWN_FEATURE''] - set feature_names = {''UNKNOWN_FEATURE''}"
    by (simp add: feature_names_def)
  from assemble_in_order [where labels = "[''HEALTH'', ''TENSE'']" and js = "[1, 0]"
      and t = 1 and i = 2 and c = 3 and p = 4 and y = 5 and n = 6 and a = 7 and s = 8
      and d = 9 and h = 10] sub js
  obtain out where
    o: "getitem_columns (feature_dict 1 2 3 4 5 6 7 8 9 10) [''HEALTH'', ''TENSE''] = Inr out"
    and l: "map fst out = [''HEALTH'', ''TENSE'']"
    and v: "map (\<lambda>c. Some (snd c)) out
        = map (map_of (feature_dict 1 2 3 4 5 6 7 8 9 10)) [''HEALTH'', ''TENSE'']"
    and r: "getitem_columns (feature_dict 1 2 3 4 5 6 7 8 9 10)
        (map (\<lambda>j. [''HEALTH'', ''TENSE''] ! j) [1, 0]) = Inr (map (\<lambda>j. out ! j) [1, 0])"
    by auto
  from l v have out: "out = [(''HEALTH'', 10), (''TENSE'', 1)]"
    by (auto simp: feature_dict_def map_eq_Cons_conv)
  from assemble_in_order [where labels = "[''TENSE'', ''UNKNOWN_FEATURE'']"
      and t = 1 and i = 2 and c = 3 and p = 4 and y = 5 and n = 6 and a = 7 and s = 8
      and d = 9 and h = 10] nsub miss
  have "getitem_columns (feature_dict 1 2 3 4 5 6 7 8 9 10) [''TENSE'', ''UNKNOWN_FEATURE'']
       = Inl (KeyError {''UNKNOWN_FEATURE''})"
    by simp
  with sub nsub o r out show ?thesis
    by simp
qed

subsection \<open>The decision against the threshold\<close>

text \<open>
  C2. For a probability \<open>p\<close> and a threshold \<open>t\<close>, both between 0 and 1, the label is 1
  when \<open>p \<ge> t\<close> and 0 otherwise, so that \<open>p = t\<close> gives 1; and this is the label of the
  prediction whenever the pipeline returns \<open>p\<close> for the selected columns. With a threshold
  of 0.5 the probabilities 0.5, 0.4999 and 0.5001 give 1, 0 and 1. The two floats are
  represented by their values: on floats that are numbers, \<^verbatim>\<open>>=\<close> is the order of the
  values.
\<close>

theorem label_by_threshold:
  "(0 \<le> p \<and> p \<le> 1 \<and> 0 \<le> t \<and> t \<le> 1 \<longrightarrow>
      pred p t = (if p \<ge> t then 1 else 0) \<and> pred t t = 1
      \<and> (input_data r = Inr df \<and> getitem_columns df (features info) = Inr sel
           \<and> model info sel = Inr p \<and> threshold info = t \<longrightarrow>
         predict info r = Inr \<lparr>prob = p, label = (if p \<ge> t then 1 else 0)\<rparr>))
   \<and> pred 0.5 0.5 = 1 \<and> pred 0.4999 0.5 = 0 \<and> pred 0.5001 0.5 = 1"
  by (simp add: pred_def int_of_bool_def predict_def)

theorem label_by_threshold_witness:
  "(0::real) \<le> 0.66 \<and> (0.66::real) \<le> 1 \<and> (0::real) \<le> 0.5 \<and> (0.5::real) \<le> 1
   \<and> input_data scenario_answers = Inr (feature_dict 2 1 3 13 1 1 50 1 2 3)
   \<and> getitem_columns (feature_dict 2 1 3 13 1 1 50 1 2 3) (features scenario_info)
       = Inr [(''P_STRESS'', 13), (''AGE_R_LMP'', 50), (''HEALTH'', 3)]
   \<and> model scenario_info [(''P_STRESS'', 13), (''AGE_R_LMP'', 50), (''HEALTH'', 3)] = Inr 0.66
   \<and> threshold scenario_info = 0.5
   \<and> predict scenario_info scenario_answers = Inr \<lparr>prob = 0.66, label = 1\<rparr>"
  using label_by_threshold [where p = "0.66" and t = "0.5" and r = scenario_answers
      and df = "feature_dict 2 1 3 13 1 1 50 1 2 3" and info = scenario_info
      and sel = "[(''P_STRESS'', 13), (''AGE_R_LMP'', 50), (''HEALTH'', 3)]"]
  by (simp add: scenario_input_data scenario_sel scenario_model scenario_threshold)

subsection \<open>The handler: failures of the prediction path\<close>

text \<open>
  C9. Pressing the button never lets an exception of the prediction path leave the
  handler, and it leaves the loaded artifact as it was. A failure of the path, whether it
  arises while the answers are mapped and the frame is built, while the columns are
  selected or while the pipeline scores them, is a failure of the path as a whole, and
  the handler turns it into the one error message on the page.
\<close>

theorem failures_caught:
  "(\<exists>s'. button_pressed s r = Inr s' \<and> artifact s' = artifact s)
   \<and> (predict (artifact s) r = Inl e \<longrightarrow>
        button_pressed s r = Inr (s\<lparr>page := page s @ [Error_processing_input e]\<rparr>))
   \<and> (input_data r = Inl e \<longrightarrow> predict (artifact s) r = Inl e)
   \<and> (input_data r = Inr df \<and> getitem_columns df (features (artifact s)) = Inl e \<longrightarrow>
        predict (artifact s) r = Inl e)
   \<and> (input_data r = Inr df \<and> getitem_columns df (features (artifact s)) = Inr sel
        \<and> model (artifact s) sel = Inl e \<longrightarrow>
        predict (artifact s) r = Inl e)"
  by (simp add: button_pressed_eq predict_def)

theorem failures_caught_witness:
  "input_data (scenario_answers\<lparr>control := ''maybe''\<rparr>) = Inl (KeyError {''maybe''})
   \<and> predict scenario_info (scenario_answers\<lparr>control := ''maybe''\<rparr>)
       = Inl (KeyError {''maybe''})
   \<and> button_pressed \<lparr>artifact = scenario_info, page = []\<rparr>
         (scenario_answers\<lparr>control := ''maybe''\<rparr>)
       = Inr \<lparr>artifact = scenario_info,
              page = [Error_processing_input (KeyError {''maybe''})]\<rparr>"
proof -
  have i: "input_data (scenario_answers\<lparr>control := ''maybe''\<rparr>) = Inl (KeyError {''maybe''})"
    by (simp add: scenario_answers_def eval_input_data)
  from failures_caught [of "\<lparr>artifact = scenario_info, page = []\<rparr>"
      "scenario_answers\<lparr>control := ''maybe''\<rparr>" "KeyError {''maybe''}"] i
  show ?thesis by simp
qed

end
